theory Spec2Isabelle
  imports Main
begin

section \<open>Data model (frontend/lib/types)\<close>

text \<open>
  The interfaces \<^verbatim>\<open>User\<close>, \<^verbatim>\<open>AuthResponse\<close> and \<^verbatim>\<open>AuthState\<close>. An optional field
  (\<^verbatim>\<open>display_name?: string\<close>) and a nullable one (\<^verbatim>\<open>string | null\<close>) are options.
  The refresh endpoint's payload has no interface of its own in the sources; the store
  reads its \<^verbatim>\<open>access_token\<close> and \<^verbatim>\<open>refresh_token\<close>, so it is the record
  \<open>token_pair\<close>, which \<open>auth_response\<close> extends.
\<close>

record user =
  user_id :: string
  email :: string
  display_name :: "string option"
  github_username :: "string option"
  github_avatar_url :: "string option"

record token_pair =
  access_token :: string
  refresh_token :: string

record auth_response = token_pair +
  resp_user :: user
  token_type :: string

record auth_state =
  user :: "user option"
  accessToken :: "string option"
  refreshToken :: "string option"
  isLoading :: bool
  isAuthenticated :: bool

text \<open>
  A thrown JavaScript \<^verbatim>\<open>Error\<close> (also its subclasses \<^verbatim>\<open>TypeError\<close> and
  \<^verbatim>\<open>SyntaxError\<close>, which the transport and the JSON parser raise): only its message is
  ever read.
\<close>

datatype error = Error string

fun message :: "error \<Rightarrow> string" where
  "message (Error m) = m"

definition to_primitive_failure :: error where
  "to_primitive_failure = Error ''Cannot convert object to primitive value''"

text \<open>
  JavaScript truthiness of a \<^verbatim>\<open>string | null\<close>: both \<^verbatim>\<open>null\<close> and the empty
  string are falsy. \<open>or_else v d\<close> is \<^verbatim>\<open>v || d\<close>.
\<close>

definition truthy :: "string option \<Rightarrow> bool" where
  "truthy v = (case v of None \<Rightarrow> False | Some t \<Rightarrow> t \<noteq> [])"

definition or_else :: "string option \<Rightarrow> string \<Rightarrow> string" where
  "or_else v d = (case v of None \<Rightarrow> d | Some t \<Rightarrow> if t \<noteq> [] then t else d)"

text \<open>
  A value parsed from JSON, as far as the code looks at it. A number is given by the
  string that JavaScript's \<^verbatim>\<open>ToString\<close> yields for it, so both zeros are
  \<open>JNumber ''0''\<close>. \<open>js_truthy\<close> is the truthiness of a value that may be
  \<^verbatim>\<open>undefined\<close> (\<open>None\<close>), and \<open>js_to_string\<close> is \<^verbatim>\<open>ToString\<close>, which
  \<^verbatim>\<open>new Error(v)\<close> applies to its argument: an array is the join of its elements by
  commas, with nothing for a \<^verbatim>\<open>null\<close> element, and an object is
  \<^verbatim>\<open>[object Object]\<close>. The conversion of an object calls its \<^verbatim>\<open>toString\<close>; a
  parsed object that has a field of that name hides the inherited method by a value
  that cannot be called, and the conversion throws a \<^verbatim>\<open>TypeError\<close>
  (\<open>to_primitive_failure\<close>, in the wording of V8). \<open>convertible v\<close> says that
  no object converted on the way has such a field.
\<close>

datatype json =
    JNull
  | JBool bool
  | JNumber string
  | JString string
  | JArray "json list"
  | JObject "(string \<times> json) list"

fun js_truthy :: "json option \<Rightarrow> bool" where
  "js_truthy None = False"
| "js_truthy (Some JNull) = False"
| "js_truthy (Some (JBool b)) = b"
| "js_truthy (Some (JNumber shown)) = (shown \<noteq> ''0'')"
| "js_truthy (Some (JString t)) = (t \<noteq> [])"
| "js_truthy (Some (JArray xs)) = True"
| "js_truthy (Some (JObject kvs)) = True"

fun join_comma :: "string list \<Rightarrow> string" where
  "join_comma [] = []"
| "join_comma [x] = x"
| "join_comma (x # y # ys) = x @ '','' @ join_comma (y # ys)"

fun js_to_string :: "json \<Rightarrow> string" where
  "js_to_string JNull = ''null''"
| "js_to_string (JBool b) = (if b then ''true'' else ''false'')"
| "js_to_string (JNumber shown) = shown"
| "js_to_string (JString t) = t"
| "js_to_string (JArray xs) =
     join_comma (map (\<lambda>x. if x = JNull then [] else js_to_string x) xs)"
| "js_to_string (JObject kvs) = ''[object Object]''"

fun convertible :: "json \<Rightarrow> bool" where
  "convertible (JArray xs) = list_all convertible xs"
| "convertible (JObject kvs) = (''toString'' \<notin> set (map fst kvs))"
| "convertible v = True"

text \<open>
  \<open>detail_or detail fallback\<close> is what \<^verbatim>\<open>throw new Error(error.detail || fallback)\<close>
  throws: the new error, or the error of the conversion to a string.
\<close>

definition detail_or :: "json option \<Rightarrow> string \<Rightarrow> error" where
  "detail_or detail fallback =
     (case detail of
        None \<Rightarrow> Error fallback
      | Some v \<Rightarrow>
          if \<not> js_truthy (Some v) then Error fallback
          else if convertible v then Error (js_to_string v)
          else to_primitive_failure)"

section \<open>The remote auth service and the transport\<close>

text \<open>
  What \<^verbatim>\<open>await fetch(...)\<close> followed by \<^verbatim>\<open>response.json()\<close> can do:
  \<^item> \<open>Rejected e\<close>: \<^verbatim>\<open>fetch\<close> itself rejects (the transport failed);
  \<^item> \<open>Ok_json j\<close>: \<^verbatim>\<open>response.ok\<close> holds, and \<^verbatim>\<open>response.json()\<close> rejects with
    \<open>Inl e\<close> or yields the endpoint's payload \<open>Inr p\<close>;
  \<^item> \<open>Not_ok j\<close>: \<^verbatim>\<open>response.ok\<close> is false, and reading \<^verbatim>\<open>error.detail\<close> of the
    awaited \<^verbatim>\<open>response.json()\<close> throws \<open>Inl e\<close> (the body is not JSON, or it is
    \<^verbatim>\<open>null\<close>) or yields \<open>Inr d\<close>: any JSON value, or \<open>None\<close> for \<^verbatim>\<open>undefined\<close>
    when the body has no such field.
\<close>

datatype 'a fetch_result =
    Rejected error
  | Ok_json "error + 'a"
  | Not_ok "error + json option"

datatype request =
    POST_signup string string "string option"
  | POST_login string string
  | POST_logout string
  | GET_me string
  | POST_refresh string

text \<open>
  The service answers a request as a function of the requests sent before it, so the
  same request may be answered differently at different moments.
\<close>

record backend =
  on_signup :: "request list \<Rightarrow> string \<Rightarrow> string \<Rightarrow> string option \<Rightarrow> auth_response fetch_result"
  on_login :: "request list \<Rightarrow> string \<Rightarrow> string \<Rightarrow> auth_response fetch_result"
  on_logout :: "request list \<Rightarrow> string \<Rightarrow> unit fetch_result"
  on_me :: "request list \<Rightarrow> string \<Rightarrow> user fetch_result"
  on_refresh :: "request list \<Rightarrow> string \<Rightarrow> token_pair fetch_result"

text \<open>The effects outside the store: the requests sent and the lines of \<^verbatim>\<open>console.error\<close>.\<close>

record net =
  sent :: "request list"
  console :: "(string \<times> error) list"

section \<open>The API client \<^verbatim>\<open>authApi\<close> (frontend/lib/supabase)\<close>

text \<open>
  Every method has the same body after the \<^verbatim>\<open>fetch\<close>:
  \<^verbatim>\<open>if (!response.ok) { const error = await response.json();
       throw new Error(error.detail || fallback); }
  return response.json();\<close>
\<close>

definition settle :: "string \<Rightarrow> 'a fetch_result \<Rightarrow> error + 'a" where
  "settle fallback r =
     (case r of
        Rejected e \<Rightarrow> Inl e
      | Not_ok (Inl e) \<Rightarrow> Inl e
      | Not_ok (Inr detail) \<Rightarrow> Inl (detail_or detail fallback)
      | Ok_json j \<Rightarrow> j)"

definition authApi_signup ::
  "backend \<Rightarrow> string \<Rightarrow> string \<Rightarrow> string option \<Rightarrow> net \<Rightarrow> (error + auth_response) \<times> net" where
  "authApi_signup be em pw dn n =
     (settle ''Signup failed'' (on_signup be (sent n) em pw dn),
      n\<lparr>sent := sent n @ [POST_signup em pw dn]\<rparr>)"

definition authApi_login ::
  "backend \<Rightarrow> string \<Rightarrow> string \<Rightarrow> net \<Rightarrow> (error + auth_response) \<times> net" where
  "authApi_login be em pw n =
     (settle ''Login failed'' (on_login be (sent n) em pw),
      n\<lparr>sent := sent n @ [POST_login em pw]\<rparr>)"

definition authApi_logout :: "backend \<Rightarrow> string \<Rightarrow> net \<Rightarrow> (error + unit) \<times> net" where
  "authApi_logout be tok n =
     (settle ''Logout failed'' (on_logout be (sent n) tok),
      n\<lparr>sent := sent n @ [POST_logout tok]\<rparr>)"

definition authApi_getMe :: "backend \<Rightarrow> string \<Rightarrow> net \<Rightarrow> (error + user) \<times> net" where
  "authApi_getMe be tok n =
     (settle ''Failed to fetch user'' (on_me be (sent n) tok),
      n\<lparr>sent := sent n @ [GET_me tok]\<rparr>)"

definition authApi_refreshToken ::
  "backend \<Rightarrow> string \<Rightarrow> net \<Rightarrow> (error + token_pair) \<times> net" where
  "authApi_refreshToken be rt n =
     (settle ''Token refresh failed'' (on_refresh be (sent n) rt),
      n\<lparr>sent := sent n @ [POST_refresh rt]\<rparr>)"

section \<open>The session store \<^verbatim>\<open>useAuthStore\<close> (frontend/lib/store/authStore)\<close>

text \<open>
  \<^verbatim>\<open>set({...})\<close> is a record update of the named fields. An action takes the store's
  state and the outside world and returns both as they are when its promise settles,
  with \<open>Inl e\<close> for a rejection with \<open>e\<close>.
\<close>

definition initial_state :: auth_state where
  "initial_state =
     \<lparr>user = None, accessToken = None, refreshToken = None,
      isLoading = True, isAuthenticated = False\<rparr>"

definition setUser :: "user option \<Rightarrow> auth_state \<Rightarrow> auth_state" where
  "setUser u s = s\<lparr>user := u, isAuthenticated := (u \<noteq> None), isLoading := False\<rparr>"

definition setTokens :: "string \<Rightarrow> string \<Rightarrow> auth_state \<Rightarrow> auth_state" where
  "setTokens at rt s = s\<lparr>accessToken := Some at, refreshToken := Some rt\<rparr>"

fun login ::
  "backend \<Rightarrow> string \<Rightarrow> string \<Rightarrow> auth_state \<times> net \<Rightarrow> (error + unit) \<times> auth_state \<times> net" where
  "login be em pw (s, n) =
       (let s1 = s\<lparr>isLoading := True\<rparr> in
        case authApi_login be em pw n of
          (Inr response, n1) \<Rightarrow>
            (Inr (),
             s1\<lparr>user := Some (resp_user response),
                accessToken := Some (access_token response),
                refreshToken := Some (refresh_token response),
                isAuthenticated := True,
                isLoading := False\<rparr>,
             n1)
        | (Inl err, n1) \<Rightarrow> (Inl err, s1\<lparr>isLoading := False\<rparr>, n1))"

fun signup ::
  "backend \<Rightarrow> string \<Rightarrow> string \<Rightarrow> string option \<Rightarrow> auth_state \<times> net
     \<Rightarrow> (error + unit) \<times> auth_state \<times> net" where
  "signup be em pw dn (s, n) =
       (let s1 = s\<lparr>isLoading := True\<rparr> in
        case authApi_signup be em pw dn n of
          (Inr response, n1) \<Rightarrow>
            (Inr (),
             s1\<lparr>user := Some (resp_user response),
                accessToken := Some (access_token response),
                refreshToken := Some (refresh_token response),
                isAuthenticated := True,
                isLoading := False\<rparr>,
             n1)
        | (Inl err, n1) \<Rightarrow> (Inl err, s1\<lparr>isLoading := False\<rparr>, n1))"

text \<open>
  \<^verbatim>\<open>logout\<close>: the \<^verbatim>\<open>try\<close> block calls the service when the token read at entry is
  truthy; \<^verbatim>\<open>catch\<close> writes the error to the console and completes normally;
  \<^verbatim>\<open>finally\<close> clears the session.
\<close>

fun logout :: "backend \<Rightarrow> auth_state \<times> net \<Rightarrow> (error + unit) \<times> auth_state \<times> net" where
  "logout be (s, n) =
       (let s1 = s\<lparr>isLoading := True\<rparr>;
            (tried, n1) =
              (case accessToken s of
                 None \<Rightarrow> (Inr (), n)
               | Some a \<Rightarrow> if a \<noteq> [] then authApi_logout be a n else (Inr (), n));
            (caught, n2) =
              (case tried of
                 Inl err \<Rightarrow> (Inr (), n1\<lparr>console := console n1 @ [(''Logout error:'', err)]\<rparr>)
               | Inr ack \<Rightarrow> (Inr (), n1))
        in (caught,
            s1\<lparr>user := None, accessToken := None, refreshToken := None,
               isAuthenticated := False, isLoading := False\<rparr>,
            n2))"

fun refreshTokens :: "backend \<Rightarrow> auth_state \<times> net \<Rightarrow> bool \<times> auth_state \<times> net" where
  "refreshTokens be (s, n) =
       (case refreshToken s of
          None \<Rightarrow> (False, s, n)
        | Some rt \<Rightarrow>
            if rt = [] then (False, s, n)
            else
              (case authApi_refreshToken be rt n of
                 (Inr response, n1) \<Rightarrow>
                   (True,
                    s\<lparr>accessToken := Some (access_token response),
                      refreshToken := Some (refresh_token response)\<rparr>,
                    n1)
               | (Inl err, n1) \<Rightarrow>
                   (False,
                    s\<lparr>user := None, accessToken := None, refreshToken := None,
                      isAuthenticated := False\<rparr>,
                    n1\<lparr>console := console n1 @ [(''Token refresh failed:'', err)]\<rparr>)))"

text \<open>
  \<^verbatim>\<open>checkAuth\<close>. \<open>give_up\<close> is the final \<^verbatim>\<open>set\<close> of the outer \<^verbatim>\<open>catch\<close> block,
  reached when the refresh fails, when the refreshed token is falsy, and when the
  retried fetch fails.
\<close>

definition give_up :: "auth_state \<Rightarrow> auth_state" where
  "give_up s =
     s\<lparr>user := None, accessToken := None, refreshToken := None,
       isAuthenticated := False, isLoading := False\<rparr>"

fun checkAuth :: "backend \<Rightarrow> auth_state \<times> net \<Rightarrow> auth_state \<times> net" where
  "checkAuth be (s, n) =
       (let s1 = s\<lparr>isLoading := True\<rparr> in
        case accessToken s of
          None \<Rightarrow> (s1\<lparr>isLoading := False\<rparr>, n)
        | Some a \<Rightarrow>
            if a = [] then (s1\<lparr>isLoading := False\<rparr>, n)
            else
              (case authApi_getMe be a n of
                 (Inr u, n1) \<Rightarrow>
                   (s1\<lparr>user := Some u, isAuthenticated := True, isLoading := False\<rparr>, n1)
               | (Inl err, n1) \<Rightarrow>
                   (case refreshTokens be (s1, n1) of
                      (False, s2, n2) \<Rightarrow> (give_up s2, n2)
                    | (True, s2, n2) \<Rightarrow>
                        (case accessToken s2 of
                           None \<Rightarrow> (give_up s2, n2)
                         | Some newToken \<Rightarrow>
                             if newToken = [] then (give_up s2, n2)
                             else
                               (case authApi_getMe be newToken n2 of
                                  (Inr u, n3) \<Rightarrow>
                                    (s2\<lparr>user := Some u, isAuthenticated := True,
                                        isLoading := False\<rparr>,
                                     n3)
                                | (Inl err2, n3) \<Rightarrow> (give_up s2, n3))))))"

fun handleOAuthCallback ::
  "backend \<Rightarrow> string \<Rightarrow> string \<Rightarrow> auth_state \<times> net \<Rightarrow> (error + unit) \<times> auth_state \<times> net" where
  "handleOAuthCallback be at rt (s, n) =
       (let s1 = s\<lparr>isLoading := True\<rparr>;
            s2 = s1\<lparr>accessToken := Some at, refreshToken := Some rt\<rparr>
        in case authApi_getMe be at n of
             (Inr u, n1) \<Rightarrow>
               (Inr (), s2\<lparr>user := Some u, isAuthenticated := True, isLoading := False\<rparr>, n1)
           | (Inl err, n1) \<Rightarrow>
               (Inl err, s2\<lparr>isLoading := False, isAuthenticated := False\<rparr>, n1))"

section \<open>The OAuth callback page (frontend/app/auth/callback)\<close>

text \<open>
  \<^verbatim>\<open>searchParams\<close> holds the decoded name/value pairs of the query string, and
  \<^verbatim>\<open>searchParams.get\<close> returns the first value of a name or \<^verbatim>\<open>null\<close>. The page keeps
  the \<^verbatim>\<open>error\<close> of its \<^verbatim>\<open>useState\<close> and the routes pushed to the router.
\<close>

type_synonym search_params = "(string \<times> string) list"

definition get :: "search_params \<Rightarrow> string \<Rightarrow> string option" where
  "get sp name = map_of sp name"

record page =
  error_shown :: "string option"
  pushed :: "string list"

definition initial_page :: page where
  "initial_page = \<lparr>error_shown = None, pushed = []\<rparr>"

fun processCallback ::
  "backend \<Rightarrow> search_params \<Rightarrow> page \<times> auth_state \<times> net \<Rightarrow> page \<times> auth_state \<times> net" where
  "processCallback be sp (pg, s, n) =
     (let accessParam = get sp ''access_token'';
          refreshParam = get sp ''refresh_token'';
          errorParam = get sp ''error''
      in if truthy errorParam then
           (pg\<lparr>error_shown := Some (or_else (get sp ''error_description'') ''Authentication failed'')\<rparr>,
            s, n)
         else
           (case (accessParam, refreshParam) of
              (Some at, Some rt) \<Rightarrow>
                if at = [] \<or> rt = [] then
                  (pg\<lparr>error_shown := Some ''Missing authentication tokens''\<rparr>, s, n)
                else
                  (case handleOAuthCallback be at rt (s, n) of
                     (Inr done, s1, n1) \<Rightarrow> (pg\<lparr>pushed := pushed pg @ [''/dashboard'']\<rparr>, s1, n1)
                   | (Inl err, s1, n1) \<Rightarrow> (pg\<lparr>error_shown := Some (message err)\<rparr>, s1, n1))
            | _ \<Rightarrow> (pg\<lparr>error_shown := Some ''Missing authentication tokens''\<rparr>, s, n)))"

section \<open>Persistence\<close>

text \<open>
  \<^verbatim>\<open>partialize\<close> selects what the \<^verbatim>\<open>persist\<close> middleware writes to local storage
  under the key \<^verbatim>\<open>echo-auth-storage\<close>.
\<close>

record persisted =
  p_accessToken :: "string option"
  p_refreshToken :: "string option"
  p_user :: "user option"

definition partialize :: "auth_state \<Rightarrow> persisted" where
  "partialize state =
     \<lparr>p_accessToken = accessToken state,
      p_refreshToken = refreshToken state,
      p_user = user state\<rparr>"

text \<open>
  Modelled from the spec: the \<^verbatim>\<open>persist\<close> middleware, which reads the entry back,
  is a library and not among the sources. The session is created at application start
  by reading persisted storage, or defaulting to the initial state; the fields that are
  not persisted are recomputed at load, that is, they take the values of the initial
  state of the source.
\<close>

definition rehydrate :: "persisted option \<Rightarrow> auth_state" where
  "rehydrate entry =
     (case entry of
        None \<Rightarrow> initial_state
      | Some p \<Rightarrow>
          initial_state\<lparr>accessToken := p_accessToken p,
                        refreshToken := p_refreshToken p,
                        user := p_user p\<rparr>)"

section \<open>Sequences of completed operations\<close>

text \<open>
  The operations of the session manager, and a reload of the page: the store is built
  again from what the store itself persisted last.
\<close>

datatype op =
    SetUser "user option"
  | SetTokens string string
  | Login string string
  | Signup string string "string option"
  | Logout
  | RefreshTokens
  | CheckAuth
  | HandleOAuthCallback string string
  | Reload

fun step :: "backend \<Rightarrow> op \<Rightarrow> auth_state \<times> net \<Rightarrow> auth_state \<times> net" where
  "step be (SetUser u) (s, n) = (setUser u s, n)"
| "step be (SetTokens at rt) (s, n) = (setTokens at rt s, n)"
| "step be (Login em pw) (s, n) = snd (login be em pw (s, n))"
| "step be (Signup em pw dn) (s, n) = snd (signup be em pw dn (s, n))"
| "step be Logout (s, n) = snd (logout be (s, n))"
| "step be RefreshTokens (s, n) = snd (refreshTokens be (s, n))"
| "step be CheckAuth (s, n) = checkAuth be (s, n)"
| "step be (HandleOAuthCallback at rt) (s, n) = snd (handleOAuthCallback be at rt (s, n))"
| "step be Reload (s, n) = (rehydrate (Some (partialize s)), n)"

fun run :: "backend \<Rightarrow> op list \<Rightarrow> auth_state \<times> net \<Rightarrow> auth_state \<times> net" where
  "run be [] sn = sn"
| "run be (x # xs) sn = run be xs (step be x sn)"

section \<open>A sample service\<close>

text \<open>
  Concrete inputs on which the model is run: a service with one account, whose access
  token \<open>''a''\<close> has expired while its refresh token \<open>''b''\<close> is still good and buys
  the pair \<open>''a2''\<close>, \<open>''b2''\<close>, and which answers a login without a password by
  a list of validation errors as its \<open>detail\<close>; a service that cannot be reached; the stored entry of
  a session of that account; and a world in which nothing has happened yet.
\<close>

definition demo_user :: user where
  "demo_user =
     \<lparr>user_id = ''1'', email = ''e@x.com'', display_name = None,
      github_username = None, github_avatar_url = None\<rparr>"

definition demo_backend :: backend where
  "demo_backend =
     \<lparr>on_signup = (\<lambda>h em pw dn.
        if em = ''e@x.com'' then Not_ok (Inr None)
        else Ok_json (Inr \<lparr>access_token = ''a3'', refresh_token = ''b3'',
                            resp_user = demo_user\<lparr>user_id := ''2'', email := em, display_name := dn\<rparr>,
                            token_type = ''bearer''\<rparr>)),
      on_login = (\<lambda>h em pw.
        if pw = []
        then Not_ok (Inr (Some (JArray
               [JObject [(''loc'', JArray [JString ''body'', JString ''password'']),
                         (''msg'', JString ''field required'')]])))
        else if em = ''e@x.com'' \<and> pw = ''secret''
        then Ok_json (Inr \<lparr>access_token = ''a2'', refresh_token = ''b2'',
                            resp_user = demo_user, token_type = ''bearer''\<rparr>)
        else Not_ok (Inr (Some (JString ''Invalid credentials'')))),
      on_logout = (\<lambda>h tok.
        if tok = ''a2'' then Ok_json (Inr ()) else Not_ok (Inr (Some (JString ''Not authenticated'')))),
      on_me = (\<lambda>h tok.
        if tok = ''a2'' then Ok_json (Inr demo_user) else Not_ok (Inr (Some (JString ''Token expired'')))),
      on_refresh = (\<lambda>h rt.
        if rt = ''b'' then Ok_json (Inr \<lparr>access_token = ''a2'', refresh_token = ''b2''\<rparr>)
        else Not_ok (Inr None))\<rparr>"

definition offline_backend :: backend where
  "offline_backend =
     \<lparr>on_signup = (\<lambda>h em pw dn. Rejected (Error ''Failed to fetch'')),
      on_login = (\<lambda>h em pw. Rejected (Error ''Failed to fetch'')),
      on_logout = (\<lambda>h tok. Rejected (Error ''Failed to fetch'')),
      on_me = (\<lambda>h tok. Rejected (Error ''Failed to fetch'')),
      on_refresh = (\<lambda>h rt. Rejected (Error ''Failed to fetch''))\<rparr>"

definition stored_session :: persisted where
  "stored_session = \<lparr>p_accessToken = Some ''a'', p_refreshToken = Some ''b'', p_user = Some demo_user\<rparr>"

definition quiet :: net where
  "quiet = \<lparr>sent = [], console = []\<rparr>"

section \<open>Verified properties\<close>

subsection \<open>Shared facts\<close>

lemmas api_defs =
  authApi_signup_def authApi_login_def authApi_logout_def authApi_getMe_def
  authApi_refreshToken_def

lemmas sample_defs =
  demo_backend_def offline_backend_def demo_user_def stored_session_def quiet_def
  initial_state_def rehydrate_def

subsection \<open>Login and signup failures\<close>

text \<open>
  C2 (as amended). Whatever makes the remote login or signup call fail, the operation
  rejects with that very error and leaves the session as it was before the call, with
  \<open>isLoading\<close> false: \<open>user\<close>, \<open>accessToken\<close>, \<open>refreshToken\<close> and
  \<open>isAuthenticated\<close> keep their values. When the service answers with a non-2xx
  status and a JSON body, the error carries the body's \<open>detail\<close> if that is a
  non-empty string; the fixed fallback (\<open>''Login failed''\<close>, \<open>''Signup failed''\<close>)
  if \<open>detail\<close> is missing or falsy (\<^verbatim>\<open>null\<close>, \<^verbatim>\<open>false\<close>, zero, the empty
  string); and the JavaScript string conversion of \<open>detail\<close> if it is any other
  truthy value, such as \<open>''[object Object]''\<close> for a list of one error object, or
  the \<^verbatim>\<open>TypeError\<close> of that conversion if it throws. When the transport fails, or
  reading the body throws, that error is surfaced as it is.
\<close>

theorem login_signup_failure:
  "(authApi_login be em pw n = (Inl err, n')
      \<longrightarrow> login be em pw (s, n) = (Inl err, s\<lparr>isLoading := False\<rparr>, n'))
   \<and> (authApi_signup be em pw dn n = (Inl err, n')
      \<longrightarrow> signup be em pw dn (s, n) = (Inl err, s\<lparr>isLoading := False\<rparr>, n'))
   \<and> (on_login be (sent n) em pw = Not_ok (Inr (Some (JString m))) \<and> m \<noteq> []
      \<longrightarrow> fst (login be em pw (s, n)) = Inl (Error m))
   \<and> (on_login be (sent n) em pw = Not_ok (Inr d) \<and> \<not> js_truthy d
      \<longrightarrow> fst (login be em pw (s, n)) = Inl (Error ''Login failed''))
   \<and> (on_login be (sent n) em pw = Not_ok (Inr (Some v)) \<and> js_truthy (Some v)
      \<longrightarrow> fst (login be em pw (s, n))
            = Inl (if convertible v then Error (js_to_string v) else to_primitive_failure))
   \<and> (on_signup be (sent n) em pw dn = Not_ok (Inr (Some (JString m))) \<and> m \<noteq> []
      \<longrightarrow> fst (signup be em pw dn (s, n)) = Inl (Error m))
   \<and> (on_signup be (sent n) em pw dn = Not_ok (Inr d) \<and> \<not> js_truthy d
      \<longrightarrow> fst (signup be em pw dn (s, n)) = Inl (Error ''Signup failed''))
   \<and> (on_signup be (sent n) em pw dn = Not_ok (Inr (Some v)) \<and> js_truthy (Some v)
      \<longrightarrow> fst (signup be em pw dn (s, n))
            = Inl (if convertible v then Error (js_to_string v) else to_primitive_failure))
   \<and> (on_login be (sent n) em pw \<in> {Rejected e, Not_ok (Inl e), Ok_json (Inl e)}
      \<longrightarrow> fst (login be em pw (s, n)) = Inl e)
   \<and> (on_signup be (sent n) em pw dn \<in> {Rejected e, Not_ok (Inl e), Ok_json (Inl e)}
      \<longrightarrow> fst (signup be em pw dn (s, n)) = Inl e)"
proof -
  have unchanged_login: "authApi_login be em pw n = (Inl err, n')
      \<longrightarrow> login be em pw (s, n) = (Inl err, s\<lparr>isLoading := False\<rparr>, n')"
    by simp
  have unchanged_signup: "authApi_signup be em pw dn n = (Inl err, n')
      \<longrightarrow> signup be em pw dn (s, n) = (Inl err, s\<lparr>isLoading := False\<rparr>, n')"
    by simp
  have text_login: "on_login be (sent n) em pw = Not_ok (Inr (Some (JString m))) \<and> m \<noteq> []
      \<longrightarrow> fst (login be em pw (s, n)) = Inl (Error m)"
    by (simp add: authApi_login_def settle_def detail_or_def)
  have fallback_login: "on_login be (sent n) em pw = Not_ok (Inr d) \<and> \<not> js_truthy d
      \<longrightarrow> fst (login be em pw (s, n)) = Inl (Error ''Login failed'')"
    by (auto simp: authApi_login_def settle_def detail_or_def split: option.splits)
  have converted_login: "on_login be (sent n) em pw = Not_ok (Inr (Some v)) \<and> js_truthy (Some v)
      \<longrightarrow> fst (login be em pw (s, n))
            = Inl (if convertible v then Error (js_to_string v) else to_primitive_failure)"
    by (simp add: authApi_login_def settle_def detail_or_def)
  have text_signup: "on_signup be (sent n) em pw dn = Not_ok (Inr (Some (JString m))) \<and> m \<noteq> []
      \<longrightarrow> fst (signup be em pw dn (s, n)) = Inl (Error m)"
    by (simp add: authApi_signup_def settle_def detail_or_def)
  have fallback_signup: "on_signup be (sent n) em pw dn = Not_ok (Inr d) \<and> \<not> js_truthy d
      \<longrightarrow> fst (signup be em pw dn (s, n)) = Inl (Error ''Signup failed'')"
    by (auto simp: authApi_signup_def settle_def detail_or_def split: option.splits)
  have converted_signup: "on_signup be (sent n) em pw dn = Not_ok (Inr (Some v)) \<and> js_truthy (Some v)
      \<longrightarrow> fst (signup be em pw dn (s, n))
            = Inl (if convertible v then Error (js_to_string v) else to_primitive_failure)"
    by (simp add: authApi_signup_def settle_def detail_or_def)
  have raw_login: "on_login be (sent n) em pw \<in> {Rejected e, Not_ok (Inl e), Ok_json (Inl e)}
      \<longrightarrow> fst (login be em pw (s, n)) = Inl e"
    by (auto simp: authApi_login_def settle_def)
  have raw_signup: "on_signup be (sent n) em pw dn \<in> {Rejected e, Not_ok (Inl e), Ok_json (Inl e)}
      \<longrightarrow> fst (signup be em pw dn (s, n)) = Inl e"
    by (auto simp: authApi_signup_def settle_def)
  from unchanged_login unchanged_signup text_login fallback_login converted_login
    text_signup fallback_signup converted_signup raw_login raw_signup
  show ?thesis by (intro conjI)
qed

text \<open>
  The theorem at work: a wrong password against a restored session, a signup for an
  address that is taken (the service gives no detail), a login without a password
  (the detail is a list of one validation error), and a login while offline.
\<close>

theorem login_signup_failure_witness:
  "login demo_backend ''e@x.com'' ''wrong'' (rehydrate (Some stored_session), quiet)
     = (Inl (Error ''Invalid credentials''),
        (rehydrate (Some stored_session))\<lparr>isLoading := False\<rparr>,
        quiet\<lparr>sent := [POST_login ''e@x.com'' ''wrong'']\<rparr>)
   \<and> fst (signup demo_backend ''e@x.com'' ''pw'' None (initial_state, quiet))
     = Inl (Error ''Signup failed'')
   \<and> on_login demo_backend (sent quiet) ''e@x.com'' []
     = Not_ok (Inr (Some (JArray
         [JObject [(''loc'', JArray [JString ''body'', JString ''password'']),
                   (''msg'', JString ''field required'')]])))
   \<and> fst (login demo_backend ''e@x.com'' [] (initial_state, quiet))
     = Inl (Error ''[object Object]'')
   \<and> fst (login offline_backend ''e@x.com'' ''secret'' (initial_state, quiet))
     = Inl (Error ''Failed to fetch'')"
  using login_signup_failure
    [where be = demo_backend and em = "''e@x.com''" and pw = "''wrong''" and n = quiet
       and err = "Error ''Invalid credentials''"
       and n' = "quiet\<lparr>sent := [POST_login ''e@x.com'' ''wrong'']\<rparr>"
       and s = "rehydrate (Some stored_session)"]
    login_signup_failure
    [where be = demo_backend and em = "''e@x.com''" and pw = "''pw''" and dn = None
       and n = quiet and d = None and s = initial_state]
    login_signup_failure
    [where be = demo_backend and em = "''e@x.com''" and pw = "[]" and n = quiet
       and v = "JArray [JObject [(''loc'', JArray [JString ''body'', JString ''password'']),
                                 (''msg'', JString ''field required'')]]"
       and s = initial_state]
    login_signup_failure
    [where be = offline_backend and em = "''e@x.com''" and pw = "''secret''" and n = quiet
       and e = "Error ''Failed to fetch''" and s = initial_state]
  by (simp add: api_defs sample_defs settle_def detail_or_def)

text \<open>
  C2 as it is stated fails when no response arrives at all: the service sent no message,
  and the error surfaced is the transport's, not the fallback \<open>''Login failed''\<close>.
\<close>

theorem login_offline_counterexample:
  "on_login offline_backend (sent quiet) ''e@x.com'' ''secret'' = Rejected (Error ''Failed to fetch'')
   \<and> fst (login offline_backend ''e@x.com'' ''secret'' (initial_state, quiet))
       = Inl (Error ''Failed to fetch'')
   \<and> fst (login offline_backend ''e@x.com'' ''secret'' (initial_state, quiet))
       \<noteq> Inl (Error ''Login failed'')"
  by (simp add: api_defs sample_defs settle_def detail_or_def)

subsection \<open>Logout\<close>

text \<open>
  C3. From every session state logout completes without an error, whether the remote
  call succeeds, fails or is not made, and ends in the cleared session: \<open>user\<close>,
  \<open>accessToken\<close> and \<open>refreshToken\<close> null, \<open>isAuthenticated\<close> and \<open>isLoading\<close>
  false. The remote logout request is sent exactly when the access token held at
  entry is truthy, and then with that token.
\<close>

theorem logout_always_clears:
  "fst (logout be (s, n)) = Inr ()
   \<and> fst (snd (logout be (s, n)))
       = \<lparr>user = None, accessToken = None, refreshToken = None,
          isLoading = False, isAuthenticated = False\<rparr>
   \<and> sent (snd (snd (logout be (s, n))))
       = sent n @ (case accessToken s of
                     None \<Rightarrow> []
                   | Some a \<Rightarrow> if a \<noteq> [] then [POST_logout a] else [])"
  by (cases s)
     (auto simp: authApi_logout_def Let_def split: option.splits sum.splits prod.splits)

theorem logout_always_clears_witness:
  "logout demo_backend (rehydrate (Some stored_session), quiet)
     = (Inr (),
        \<lparr>user = None, accessToken = None, refreshToken = None,
         isLoading = False, isAuthenticated = False\<rparr>,
        \<lparr>sent = [POST_logout ''a''],
         console = [(''Logout error:'', Error ''Not authenticated'')]\<rparr>)
   \<and> sent (snd (snd (logout offline_backend (initial_state, quiet)))) = []"
  using logout_always_clears [of demo_backend "rehydrate (Some stored_session)" quiet]
    logout_always_clears [of offline_backend initial_state quiet]
  by (simp add: api_defs sample_defs settle_def detail_or_def or_else_def)

subsection \<open>Token refresh\<close>

text \<open>
  C4. When the session's \<open>refreshToken\<close> is null, refreshTokens returns false, sends no
  request (the outside world is unchanged) and leaves every field of the session as
  it was.
\<close>

theorem refreshTokens_without_token:
  assumes "refreshToken s = None"
  shows "refreshTokens be (s, n) = (False, s, n)"
  using assms by simp

theorem refreshTokens_without_token_witness:
  "refreshToken initial_state = None
   \<and> refreshTokens demo_backend (initial_state, quiet) = (False, initial_state, quiet)"
proof -
  have absent: "refreshToken initial_state = None"
    by (simp add: initial_state_def)
  from refreshTokens_without_token [OF absent, of demo_backend quiet] absent
  show ?thesis by (rule_tac conjI)
qed

text \<open>
  C10. refreshTokens never writes \<open>isLoading\<close>: on every path the field keeps the value
  it had at entry. When the remote refresh fails, \<open>user\<close>, both tokens and
  \<open>isAuthenticated\<close> are cleared and \<open>isLoading\<close> is still what it was, so a caller
  that starts from a loading session sees a cleared session that is still loading.
\<close>

theorem refreshTokens_keeps_isLoading:
  "isLoading (fst (snd (refreshTokens be (s, n)))) = isLoading s
   \<and> (refreshToken s = Some rt \<and> rt \<noteq> [] \<and> fst (authApi_refreshToken be rt n) = Inl err
      \<longrightarrow> fst (refreshTokens be (s, n)) = False
          \<and> fst (snd (refreshTokens be (s, n)))
              = \<lparr>user = None, accessToken = None, refreshToken = None,
                 isLoading = isLoading s, isAuthenticated = False\<rparr>)"
proof (intro conjI impI)
  show "isLoading (fst (snd (refreshTokens be (s, n)))) = isLoading s"
    by (auto split: option.splits sum.splits prod.splits)
next
  assume failing: "refreshToken s = Some rt \<and> rt \<noteq> [] \<and> fst (authApi_refreshToken be rt n) = Inl err"
  then show "fst (refreshTokens be (s, n)) = False"
    by (auto split: sum.splits prod.splits)
  from failing show "fst (snd (refreshTokens be (s, n)))
      = \<lparr>user = None, accessToken = None, refreshToken = None,
         isLoading = isLoading s, isAuthenticated = False\<rparr>"
    by (cases s) (auto split: sum.splits prod.splits)
qed

theorem refreshTokens_keeps_isLoading_witness:
  "isLoading (rehydrate (Some stored_session)) = True
   \<and> refreshToken (rehydrate (Some stored_session)) = Some ''b''
   \<and> fst (authApi_refreshToken offline_backend ''b'' quiet) = Inl (Error ''Failed to fetch'')
   \<and> fst (snd (refreshTokens offline_backend (rehydrate (Some stored_session), quiet)))
       = \<lparr>user = None, accessToken = None, refreshToken = None,
          isLoading = True, isAuthenticated = False\<rparr>"
  using refreshTokens_keeps_isLoading
    [of offline_backend "rehydrate (Some stored_session)" quiet "''b''" "Error ''Failed to fetch''"]
  by (simp add: api_defs sample_defs settle_def detail_or_def)

subsection \<open>OAuth callback\<close>

text \<open>
  C7. When the current-user fetch of handleOAuthCallback(T1, T2) fails, the operation
  rejects with the error of the fetch, and the session it leaves differs from the one
  before the call only in \<open>accessToken = T1\<close>, \<open>refreshToken = T2\<close>,
  \<open>isAuthenticated = false\<close> and \<open>isLoading = false\<close>: the tokens are not cleared.
\<close>

theorem oauth_callback_failed_fetch:
  assumes "authApi_getMe be T1 n = (Inl err, n')"
  shows "handleOAuthCallback be T1 T2 (s, n)
           = (Inl err,
              s\<lparr>accessToken := Some T1, refreshToken := Some T2,
                isAuthenticated := False, isLoading := False\<rparr>,
              n')"
  using assms by simp

theorem oauth_callback_failed_fetch_witness:
  "authApi_getMe demo_backend ''T1'' quiet
     = (Inl (Error ''Token expired''), quiet\<lparr>sent := [GET_me ''T1'']\<rparr>)
   \<and> handleOAuthCallback demo_backend ''T1'' ''T2'' (initial_state, quiet)
     = (Inl (Error ''Token expired''),
        \<lparr>user = None, accessToken = Some ''T1'', refreshToken = Some ''T2'',
         isLoading = False, isAuthenticated = False\<rparr>,
        quiet\<lparr>sent := [GET_me ''T1'']\<rparr>)"
proof -
  have failing: "authApi_getMe demo_backend ''T1'' quiet
      = (Inl (Error ''Token expired''), quiet\<lparr>sent := [GET_me ''T1'']\<rparr>)"
    by (simp add: api_defs sample_defs settle_def detail_or_def or_else_def)
  from oauth_callback_failed_fetch [OF failing, of "''T2''" initial_state] failing
  show ?thesis by (simp add: initial_state_def)
qed


subsection \<open>Session check at start-up\<close>

text \<open>
  C1. Let the session hold a (truthy) access token for which the current-user fetch
  fails. If a refresh token is held, the refresh call succeeds with a non-empty new
  access token and the fetch with that token succeeds, then checkAuth ends with the
  fetched user, the tokens of the refresh response, \<open>isAuthenticated\<close> true and
  \<open>isLoading\<close> false, having sent exactly the first fetch, one refresh and one more
  fetch. If no refresh token is held, or the refresh call fails, or the retried fetch
  fails, it ends in the cleared session.
\<close>

theorem checkAuth_expired_access_token:
  assumes held: "accessToken s = Some a" "a \<noteq> []"
      and expired: "authApi_getMe be a n = (Inl e, n')"
  shows
    "(refreshToken s = Some rt \<and> rt \<noteq> []
        \<and> authApi_refreshToken be rt n' = (Inr resp, n'')
        \<and> access_token resp \<noteq> []
        \<and> authApi_getMe be (access_token resp) n'' = (Inr u, n''')
      \<longrightarrow> checkAuth be (s, n)
            = (s\<lparr>user := Some u,
                 accessToken := Some (access_token resp),
                 refreshToken := Some (refresh_token resp),
                 isAuthenticated := True,
                 isLoading := False\<rparr>,
               n''')
          \<and> sent n''' = sent n @ [GET_me a, POST_refresh rt, GET_me (access_token resp)])
     \<and> (\<not> truthy (refreshToken s)
          \<or> (refreshToken s = Some rt \<and> fst (authApi_refreshToken be rt n') = Inl e2)
          \<or> (refreshToken s = Some rt \<and> authApi_refreshToken be rt n' = (Inr resp, n'')
               \<and> fst (authApi_getMe be (access_token resp) n'') = Inl e3)
      \<longrightarrow> fst (checkAuth be (s, n))
            = \<lparr>user = None, accessToken = None, refreshToken = None,
               isLoading = False, isAuthenticated = False\<rparr>)"
proof (intro conjI impI)
  assume refreshed:
    "refreshToken s = Some rt \<and> rt \<noteq> []
       \<and> authApi_refreshToken be rt n' = (Inr resp, n'')
       \<and> access_token resp \<noteq> []
       \<and> authApi_getMe be (access_token resp) n'' = (Inr u, n''')"
  with held expired
  show "checkAuth be (s, n)
      = (s\<lparr>user := Some u,
           accessToken := Some (access_token resp),
           refreshToken := Some (refresh_token resp),
           isAuthenticated := True,
           isLoading := False\<rparr>,
         n''')"
    by simp
  from refreshed expired
  show "sent n''' = sent n @ [GET_me a, POST_refresh rt, GET_me (access_token resp)]"
    by (auto simp: authApi_getMe_def authApi_refreshToken_def)
next
  assume lost:
    "\<not> truthy (refreshToken s)
       \<or> (refreshToken s = Some rt \<and> fst (authApi_refreshToken be rt n') = Inl e2)
       \<or> (refreshToken s = Some rt \<and> authApi_refreshToken be rt n' = (Inr resp, n'')
            \<and> fst (authApi_getMe be (access_token resp) n'') = Inl e3)"
  with held expired
  show "fst (checkAuth be (s, n))
      = \<lparr>user = None, accessToken = None, refreshToken = None,
         isLoading = False, isAuthenticated = False\<rparr>"
    by (cases s)
       (auto simp: truthy_def give_up_def Let_def
             split: option.splits sum.splits prod.splits if_splits)
qed

text \<open>
  The theorem at work on the restored session of the sample account (token \<open>''a''\<close>
  expired, refresh token \<open>''b''\<close> good), and on the same session without its refresh
  token.
\<close>

theorem checkAuth_expired_access_token_witness:
  "accessToken (rehydrate (Some stored_session)) = Some ''a''
   \<and> authApi_getMe demo_backend ''a'' quiet
       = (Inl (Error ''Token expired''), quiet\<lparr>sent := [GET_me ''a'']\<rparr>)
   \<and> checkAuth demo_backend (rehydrate (Some stored_session), quiet)
       = (\<lparr>user = Some demo_user, accessToken = Some ''a2'', refreshToken = Some ''b2'',
           isLoading = False, isAuthenticated = True\<rparr>,
          \<lparr>sent = [GET_me ''a'', POST_refresh ''b'', GET_me ''a2''], console = []\<rparr>)
   \<and> fst (checkAuth demo_backend
            (rehydrate (Some (stored_session\<lparr>p_refreshToken := None\<rparr>)), quiet))
       = \<lparr>user = None, accessToken = None, refreshToken = None,
          isLoading = False, isAuthenticated = False\<rparr>"
proof -
  have held: "accessToken (rehydrate (Some stored_session)) = Some ''a''"
    and held': "accessToken (rehydrate (Some (stored_session\<lparr>p_refreshToken := None\<rparr>))) = Some ''a''"
    and nonempty: "''a'' \<noteq> []"
    by (simp_all add: sample_defs)
  have expired: "authApi_getMe demo_backend ''a'' quiet
      = (Inl (Error ''Token expired''), quiet\<lparr>sent := [GET_me ''a'']\<rparr>)"
    by (simp add: api_defs sample_defs settle_def detail_or_def or_else_def)
  from checkAuth_expired_access_token
    [OF held nonempty expired,
     where rt = "''b''" and resp = "\<lparr>access_token = ''a2'', refresh_token = ''b2''\<rparr>"
       and n'' = "quiet\<lparr>sent := [GET_me ''a'', POST_refresh ''b'']\<rparr>"
       and u = demo_user
       and n''' = "quiet\<lparr>sent := [GET_me ''a'', POST_refresh ''b'', GET_me ''a2'']\<rparr>"]
  have recovered: "checkAuth demo_backend (rehydrate (Some stored_session), quiet)
       = (\<lparr>user = Some demo_user, accessToken = Some ''a2'', refreshToken = Some ''b2'',
           isLoading = False, isAuthenticated = True\<rparr>,
          \<lparr>sent = [GET_me ''a'', POST_refresh ''b'', GET_me ''a2''], console = []\<rparr>)"
    by (simp add: api_defs sample_defs settle_def detail_or_def or_else_def)
  from checkAuth_expired_access_token [OF held' nonempty expired]
  have cleared: "fst (checkAuth demo_backend
            (rehydrate (Some (stored_session\<lparr>p_refreshToken := None\<rparr>)), quiet))
       = \<lparr>user = None, accessToken = None, refreshToken = None,
          isLoading = False, isAuthenticated = False\<rparr>"
    by (simp add: sample_defs truthy_def)
  from held expired recovered cleared show ?thesis by (intro conjI)
qed


subsection \<open>The OAuth callback page\<close>

text \<open>
  C8. When the \<open>error\<close> parameter of the callback is present (truthy), the page shows
  the \<open>error_description\<close> if there is a non-empty one, as for
  \<open>error=access_denied\<close> with the description \<open>User denied\<close>, and
  \<open>Authentication failed\<close> if there is none. When there is no error parameter and an
  access or refresh token is missing, it shows \<open>Missing authentication tokens\<close>. In
  all three cases handleOAuthCallback is not invoked: the session and the outside
  world stay as they are, whereas every invocation sends a request.
\<close>

theorem callback_page_failures:
  "(truthy (get sp ''error'') \<and> get sp ''error_description'' = Some d \<and> d \<noteq> []
      \<longrightarrow> processCallback be sp (pg, s, n) = (pg\<lparr>error_shown := Some d\<rparr>, s, n))
   \<and> (truthy (get sp ''error'') \<and> \<not> truthy (get sp ''error_description'')
      \<longrightarrow> processCallback be sp (pg, s, n)
            = (pg\<lparr>error_shown := Some ''Authentication failed''\<rparr>, s, n))
   \<and> (\<not> truthy (get sp ''error'')
        \<and> (\<not> truthy (get sp ''access_token'') \<or> \<not> truthy (get sp ''refresh_token''))
      \<longrightarrow> processCallback be sp (pg, s, n)
            = (pg\<lparr>error_shown := Some ''Missing authentication tokens''\<rparr>, s, n))
   \<and> sent (snd (snd (handleOAuthCallback be at rt (s, n)))) = sent n @ [GET_me at]"
proof (intro conjI impI)
  assume "truthy (get sp ''error'') \<and> get sp ''error_description'' = Some d \<and> d \<noteq> []"
  then show "processCallback be sp (pg, s, n) = (pg\<lparr>error_shown := Some d\<rparr>, s, n)"
    by (simp add: or_else_def)
next
  assume "truthy (get sp ''error'') \<and> \<not> truthy (get sp ''error_description'')"
  then show "processCallback be sp (pg, s, n)
      = (pg\<lparr>error_shown := Some ''Authentication failed''\<rparr>, s, n)"
    by (auto simp: or_else_def truthy_def split: option.splits)
next
  assume "\<not> truthy (get sp ''error'')
      \<and> (\<not> truthy (get sp ''access_token'') \<or> \<not> truthy (get sp ''refresh_token''))"
  then show "processCallback be sp (pg, s, n)
      = (pg\<lparr>error_shown := Some ''Missing authentication tokens''\<rparr>, s, n)"
    by (auto simp: truthy_def split: option.splits)
next
  show "sent (snd (snd (handleOAuthCallback be at rt (s, n)))) = sent n @ [GET_me at]"
    by (auto simp: authApi_getMe_def Let_def split: sum.splits)
qed

theorem callback_page_failures_witness:
  "processCallback demo_backend
      [(''error'', ''access_denied''), (''error_description'', ''User denied'')]
      (initial_page, initial_state, quiet)
     = (\<lparr>error_shown = Some ''User denied'', pushed = []\<rparr>, initial_state, quiet)
   \<and> processCallback demo_backend [(''error'', ''access_denied'')]
      (initial_page, initial_state, quiet)
     = (\<lparr>error_shown = Some ''Authentication failed'', pushed = []\<rparr>, initial_state, quiet)
   \<and> processCallback demo_backend [] (initial_page, initial_state, quiet)
     = (\<lparr>error_shown = Some ''Missing authentication tokens'', pushed = []\<rparr>,
        initial_state, quiet)"
proof -
  have denied:
    "truthy (get [(''error'', ''access_denied''), (''error_description'', ''User denied'')] ''error'')
     \<and> get [(''error'', ''access_denied''), (''error_description'', ''User denied'')]
          ''error_description'' = Some ''User denied''
     \<and> ''User denied'' \<noteq> []"
    by (simp add: get_def truthy_def)
  have undescribed:
    "truthy (get [(''error'', ''access_denied'')] ''error'')
     \<and> \<not> truthy (get [(''error'', ''access_denied'')] ''error_description'')"
    by (simp add: get_def truthy_def)
  have bare:
    "\<not> truthy (get [] ''error'')
     \<and> (\<not> truthy (get [] ''access_token'') \<or> \<not> truthy (get [] ''refresh_token''))"
    by (simp add: get_def truthy_def)
  note at_page = callback_page_failures
    [where be = demo_backend and pg = initial_page and s = initial_state and n = quiet]
  from at_page [THEN conjunct1, rule_format, OF denied]
    at_page [THEN conjunct2, THEN conjunct1, rule_format, OF undescribed]
    at_page [THEN conjunct2, THEN conjunct2, THEN conjunct1, rule_format, OF bare]
  show ?thesis by (simp add: initial_page_def)
qed

subsection \<open>Persistence\<close>

text \<open>
  C9. What is persisted is the triple of \<open>accessToken\<close>, \<open>refreshToken\<close> and
  \<open>user\<close>: a state and the state rebuilt from its stored entry have the same triple,
  every stored entry is read back as it is (so the entry with \<open>''a''\<close>, \<open>''b''\<close> and
  the user with id \<open>''1''\<close> and email \<open>''e@x.com''\<close>), and the entry does not depend
  on \<open>isLoading\<close> or \<open>isAuthenticated\<close>. Whatever is stored, the rebuilt state has
  \<open>isLoading\<close> true and \<open>isAuthenticated\<close> false, and \<open>isLoading\<close> is false once
  checkAuth has run on it.
\<close>

theorem persisted_round_trip:
  "partialize (rehydrate (Some (partialize s))) = partialize s
   \<and> partialize (rehydrate (Some p)) = p
   \<and> partialize (rehydrate (Some stored_session))
       = \<lparr>p_accessToken = Some ''a'', p_refreshToken = Some ''b'',
          p_user = Some \<lparr>user_id = ''1'', email = ''e@x.com'', display_name = None,
                          github_username = None, github_avatar_url = None\<rparr>\<rparr>
   \<and> partialize (s\<lparr>isLoading := l, isAuthenticated := b\<rparr>) = partialize s
   \<and> isLoading (rehydrate entry) = True
   \<and> isAuthenticated (rehydrate entry) = False
   \<and> isLoading (fst (checkAuth be (rehydrate entry, n))) = False"
proof (intro conjI)
  show "partialize (rehydrate (Some (partialize s))) = partialize s"
    by (simp add: partialize_def rehydrate_def)
  show "partialize (rehydrate (Some p)) = p"
    by (simp add: partialize_def rehydrate_def)
  show "partialize (rehydrate (Some stored_session))
       = \<lparr>p_accessToken = Some ''a'', p_refreshToken = Some ''b'',
          p_user = Some \<lparr>user_id = ''1'', email = ''e@x.com'', display_name = None,
                          github_username = None, github_avatar_url = None\<rparr>\<rparr>"
    by (simp add: partialize_def rehydrate_def stored_session_def demo_user_def)
  show "partialize (s\<lparr>isLoading := l, isAuthenticated := b\<rparr>) = partialize s"
    by (simp add: partialize_def)
  show "isLoading (rehydrate entry) = True"
    by (simp add: rehydrate_def initial_state_def split: option.splits)
  show "isAuthenticated (rehydrate entry) = False"
    by (simp add: rehydrate_def initial_state_def split: option.splits)
  show "isLoading (fst (checkAuth be (rehydrate entry, n))) = False"
    by (auto simp: give_up_def Let_def split: option.splits sum.splits prod.splits bool.splits)
qed

theorem persisted_round_trip_witness:
  "rehydrate (Some (partialize
      \<lparr>user = Some demo_user, accessToken = Some ''a'', refreshToken = Some ''b'',
       isLoading = False, isAuthenticated = True\<rparr>))
     = \<lparr>user = Some demo_user, accessToken = Some ''a'', refreshToken = Some ''b'',
        isLoading = True, isAuthenticated = False\<rparr>
   \<and> isLoading (fst (checkAuth offline_backend (rehydrate (Some stored_session), quiet))) = False"
proof -
  note at_sample = persisted_round_trip
    [of "\<lparr>user = Some demo_user, accessToken = Some ''a'', refreshToken = Some ''b'',
          isLoading = False, isAuthenticated = True\<rparr>"
        stored_session False True "Some stored_session" offline_backend quiet]
  from at_sample
  have checked: "isLoading (fst (checkAuth offline_backend (rehydrate (Some stored_session), quiet))) = False"
    by blast
  from at_sample
  have rebuilt: "rehydrate (Some (partialize
      \<lparr>user = Some demo_user, accessToken = Some ''a'', refreshToken = Some ''b'',
       isLoading = False, isAuthenticated = True\<rparr>))
     = \<lparr>user = Some demo_user, accessToken = Some ''a'', refreshToken = Some ''b'',
        isLoading = True, isAuthenticated = False\<rparr>"
    by (simp add: partialize_def rehydrate_def initial_state_def)
  from rebuilt checked show ?thesis by (rule conjI)
qed

subsection \<open>Invariants of the reachable states\<close>

lemma step_tokens_paired:
  "(accessToken s \<noteq> None) = (refreshToken s \<noteq> None) \<Longrightarrow>
   (accessToken (fst (step be x (s, n))) \<noteq> None)
     = (refreshToken (fst (step be x (s, n))) \<noteq> None)"
  by (cases x)
     (auto simp: setUser_def setTokens_def rehydrate_def partialize_def give_up_def Let_def
           split: option.splits sum.splits prod.splits bool.splits if_splits)

lemma run_tokens_paired:
  "(accessToken (fst sn) \<noteq> None) = (refreshToken (fst sn) \<noteq> None) \<Longrightarrow>
   (accessToken (fst (run be ops sn)) \<noteq> None) = (refreshToken (fst (run be ops sn)) \<noteq> None)"
proof (induction ops arbitrary: sn)
  case Nil
  then show ?case by simp
next
  case (Cons x xs)
  obtain s n where sn: "sn = (s, n)" by (cases sn)
  from Cons.prems
  have "(accessToken (fst (step be x sn)) \<noteq> None) = (refreshToken (fst (step be x sn)) \<noteq> None)"
    unfolding sn by (simp only: fst_conv step_tokens_paired)
  from Cons.IH [OF this] show ?case by simp
qed

lemma step_authenticated_user:
  "(isAuthenticated s \<longrightarrow> user s \<noteq> None) \<Longrightarrow>
   isAuthenticated (fst (step be x (s, n))) \<longrightarrow> user (fst (step be x (s, n))) \<noteq> None"
  by (cases x)
     (auto simp: setUser_def setTokens_def rehydrate_def partialize_def give_up_def Let_def
                 initial_state_def
           split: option.splits sum.splits prod.splits bool.splits if_splits)

lemma run_authenticated_user:
  "(isAuthenticated (fst sn) \<longrightarrow> user (fst sn) \<noteq> None) \<Longrightarrow>
   isAuthenticated (fst (run be ops sn)) \<longrightarrow> user (fst (run be ops sn)) \<noteq> None"
proof (induction ops arbitrary: sn)
  case Nil
  then show ?case by simp
next
  case (Cons x xs)
  obtain s n where sn: "sn = (s, n)" by (cases sn)
  have before: "isAuthenticated s \<longrightarrow> user s \<noteq> None"
    using Cons.prems unfolding sn fst_conv .
  have "isAuthenticated (fst (step be x sn)) \<longrightarrow> user (fst (step be x sn)) \<noteq> None"
    unfolding sn by (rule step_authenticated_user [OF before])
  from Cons.IH [OF this] show ?case by simp
qed

text \<open>
  C5. After any sequence of completed operations (setUser, setTokens, login, signup,
  logout, refreshTokens, checkAuth, handleOAuthCallback, and reloads of the page) from
  the initial state, \<open>accessToken\<close> is non-null if and only if \<open>refreshToken\<close> is
  non-null.
\<close>

theorem tokens_both_or_neither:
  "(accessToken (fst (run be ops (initial_state, n))) \<noteq> None)
     = (refreshToken (fst (run be ops (initial_state, n))) \<noteq> None)"
  by (rule run_tokens_paired) (simp add: initial_state_def)

theorem tokens_both_or_neither_witness:
  "accessToken (fst (run demo_backend
      [Login ''e@x.com'' ''secret'', Reload, CheckAuth] (initial_state, quiet)))
     = Some ''a2''
   \<and> refreshToken (fst (run demo_backend
      [Login ''e@x.com'' ''secret'', Reload, CheckAuth] (initial_state, quiet)))
     = Some ''b2''
   \<and> accessToken (fst (run demo_backend
      [SetTokens ''a'' ''stale'', RefreshTokens] (initial_state, quiet)))
     = None
   \<and> refreshToken (fst (run demo_backend
      [SetTokens ''a'' ''stale'', RefreshTokens] (initial_state, quiet)))
     = None"
  using tokens_both_or_neither
    [of demo_backend "[Login ''e@x.com'' ''secret'', Reload, CheckAuth]" quiet]
    tokens_both_or_neither
    [of demo_backend "[SetTokens ''a'' ''stale'', RefreshTokens]" quiet]
  by (simp add: api_defs sample_defs settle_def detail_or_def or_else_def partialize_def setTokens_def)


text \<open>
  C6 (as amended). After any sequence of completed operations from the initial state,
  \<open>isAuthenticated\<close> implies that \<open>user\<close> is non-null. checkAuth, started with a
  held access token, and handleOAuthCallback end with \<open>isAuthenticated\<close> true only
  when their last request was a successful fetch of the current user with the access
  token the session holds at the end, and \<open>user\<close> is the fetched user. login and
  signup set \<open>isAuthenticated\<close> from the credential response, sending no identity
  fetch; setUser sets it to whether its argument is non-null; and a state rebuilt from
  persisted storage has \<open>isAuthenticated\<close> false, whatever user was stored.
\<close>

theorem isAuthenticated_provenance:
  "(isAuthenticated (fst (run be ops (initial_state, n)))
      \<longrightarrow> user (fst (run be ops (initial_state, n))) \<noteq> None)
   \<and> (truthy (accessToken s) \<and> checkAuth be (s, m) = (s', m') \<and> isAuthenticated s'
      \<longrightarrow> (\<exists>a u k. accessToken s' = Some a \<and> user s' = Some u
                    \<and> authApi_getMe be a k = (Inr u, m')))
   \<and> (handleOAuthCallback be at rt (s, m) = (res, s', m') \<and> isAuthenticated s'
      \<longrightarrow> (\<exists>u. accessToken s' = Some at \<and> user s' = Some u
                \<and> authApi_getMe be at m = (Inr u, m')))
   \<and> (authApi_login be em pw m = (Inr resp, m')
      \<longrightarrow> login be em pw (s, m)
            = (Inr (),
               s\<lparr>user := Some (resp_user resp),
                 accessToken := Some (access_token resp),
                 refreshToken := Some (refresh_token resp),
                 isAuthenticated := True,
                 isLoading := False\<rparr>,
               m')
          \<and> sent m' = sent m @ [POST_login em pw])
   \<and> (authApi_signup be em pw dn m = (Inr resp, m')
      \<longrightarrow> signup be em pw dn (s, m)
            = (Inr (),
               s\<lparr>user := Some (resp_user resp),
                 accessToken := Some (access_token resp),
                 refreshToken := Some (refresh_token resp),
                 isAuthenticated := True,
                 isLoading := False\<rparr>,
               m')
          \<and> sent m' = sent m @ [POST_signup em pw dn])
   \<and> isAuthenticated (setUser v s) = (v \<noteq> None)
   \<and> isAuthenticated (rehydrate entry) = False"
proof (intro conjI)
  show "isAuthenticated (fst (run be ops (initial_state, n)))
      \<longrightarrow> user (fst (run be ops (initial_state, n))) \<noteq> None"
    by (rule run_authenticated_user) (simp add: initial_state_def)
next
  show "truthy (accessToken s) \<and> checkAuth be (s, m) = (s', m') \<and> isAuthenticated s'
      \<longrightarrow> (\<exists>a u k. accessToken s' = Some a \<and> user s' = Some u
                    \<and> authApi_getMe be a k = (Inr u, m'))"
  proof
    assume checked: "truthy (accessToken s) \<and> checkAuth be (s, m) = (s', m') \<and> isAuthenticated s'"
    then obtain a where a: "accessToken s = Some a" "a \<noteq> []"
      by (auto simp: truthy_def split: option.splits)
    show "\<exists>a u k. accessToken s' = Some a \<and> user s' = Some u
        \<and> authApi_getMe be a k = (Inr u, m')"
    proof (cases "authApi_getMe be a m")
      case (Pair r k)
      show ?thesis
      proof (cases r)
        case (Inr u)
        with Pair a checked have "accessToken s' = Some a \<and> user s' = Some u
            \<and> authApi_getMe be a m = (Inr u, m')"
          by auto
        then show ?thesis by blast
      next
        case (Inl err)
        obtain ok s2 k2 where refreshed: "refreshTokens be (s\<lparr>isLoading := True\<rparr>, k) = (ok, s2, k2)"
          by (cases "refreshTokens be (s\<lparr>isLoading := True\<rparr>, k)") auto
        from Inl Pair a checked refreshed
        have retried: "\<exists>t u. accessToken s2 = Some t \<and> t \<noteq> []
            \<and> authApi_getMe be t k2 = (Inr u, m')
            \<and> s' = s2\<lparr>user := Some u, isAuthenticated := True, isLoading := False\<rparr>"
          by (auto simp: give_up_def Let_def simp del: refreshTokens.simps
                   split: bool.splits option.splits sum.splits prod.splits if_splits)
        then obtain t u where "accessToken s2 = Some t"
            "authApi_getMe be t k2 = (Inr u, m')"
            "s' = s2\<lparr>user := Some u, isAuthenticated := True, isLoading := False\<rparr>"
          by blast
        then have "accessToken s' = Some t \<and> user s' = Some u
            \<and> authApi_getMe be t k2 = (Inr u, m')"
          by simp
        then show ?thesis by blast
      qed
    qed
  qed
next
  show "handleOAuthCallback be at rt (s, m) = (res, s', m') \<and> isAuthenticated s'
      \<longrightarrow> (\<exists>u. accessToken s' = Some at \<and> user s' = Some u
                \<and> authApi_getMe be at m = (Inr u, m'))"
    by (auto simp: Let_def split: sum.splits prod.splits)
next
  show "authApi_login be em pw m = (Inr resp, m')
      \<longrightarrow> login be em pw (s, m)
            = (Inr (),
               s\<lparr>user := Some (resp_user resp),
                 accessToken := Some (access_token resp),
                 refreshToken := Some (refresh_token resp),
                 isAuthenticated := True,
                 isLoading := False\<rparr>,
               m')
          \<and> sent m' = sent m @ [POST_login em pw]"
    by (auto simp: authApi_login_def)
next
  show "authApi_signup be em pw dn m = (Inr resp, m')
      \<longrightarrow> signup be em pw dn (s, m)
            = (Inr (),
               s\<lparr>user := Some (resp_user resp),
                 accessToken := Some (access_token resp),
                 refreshToken := Some (refresh_token resp),
                 isAuthenticated := True,
                 isLoading := False\<rparr>,
               m')
          \<and> sent m' = sent m @ [POST_signup em pw dn]"
    by (auto simp: authApi_signup_def)
next
  show "isAuthenticated (setUser v s) = (v \<noteq> None)"
    by (simp add: setUser_def)
next
  show "isAuthenticated (rehydrate entry) = False"
    by (simp add: rehydrate_def initial_state_def split: option.splits)
qed

text \<open>
  The theorem at work: the sample account logs in; its restored session is checked,
  and the last request of the check is the successful fetch with the refreshed token.
\<close>

theorem isAuthenticated_provenance_witness:
  "isAuthenticated (fst (run demo_backend [Login ''e@x.com'' ''secret''] (initial_state, quiet)))
   \<and> user (fst (run demo_backend [Login ''e@x.com'' ''secret''] (initial_state, quiet)))
       = Some demo_user
   \<and> truthy (accessToken (rehydrate (Some stored_session)))
   \<and> isAuthenticated (fst (checkAuth demo_backend (rehydrate (Some stored_session), quiet)))
   \<and> accessToken (fst (checkAuth demo_backend (rehydrate (Some stored_session), quiet)))
       = Some ''a2''
   \<and> authApi_getMe demo_backend ''a2'' (quiet\<lparr>sent := [GET_me ''a'', POST_refresh ''b'']\<rparr>)
       = (Inr demo_user, snd (checkAuth demo_backend (rehydrate (Some stored_session), quiet)))"
  using isAuthenticated_provenance
    [where be = demo_backend and ops = "[Login ''e@x.com'' ''secret'']" and n = quiet
       and s = "rehydrate (Some stored_session)" and m = quiet
       and s' = "fst (checkAuth demo_backend (rehydrate (Some stored_session), quiet))"
       and m' = "snd (checkAuth demo_backend (rehydrate (Some stored_session), quiet))"]
  by (simp add: api_defs sample_defs settle_def detail_or_def or_else_def truthy_def)

text \<open>
  C6 as it is stated fails. After a successful login \<open>isAuthenticated\<close> is true and
  the only request ever sent is the login itself: no fetch of the current user
  preceded it. After an OAuth callback whose fetch fails, or a reload, that follows the
  login, \<open>user\<close> is non-null and \<open>isAuthenticated\<close> is false.
\<close>

theorem isAuthenticated_without_fetch_counterexample:
  "isAuthenticated (fst (run demo_backend [Login ''e@x.com'' ''secret''] (initial_state, quiet)))
   \<and> sent (snd (run demo_backend [Login ''e@x.com'' ''secret''] (initial_state, quiet)))
       = [POST_login ''e@x.com'' ''secret'']
   \<and> user (fst (run demo_backend [Login ''e@x.com'' ''secret'', Reload] (initial_state, quiet)))
       = Some demo_user
   \<and> \<not> isAuthenticated
        (fst (run demo_backend [Login ''e@x.com'' ''secret'', Reload] (initial_state, quiet)))
   \<and> user (fst (run demo_backend
        [Login ''e@x.com'' ''secret'', HandleOAuthCallback ''T1'' ''T2''] (initial_state, quiet)))
       = Some demo_user
   \<and> \<not> isAuthenticated (fst (run demo_backend
        [Login ''e@x.com'' ''secret'', HandleOAuthCallback ''T1'' ''T2''] (initial_state, quiet)))"
  by (simp add: api_defs sample_defs settle_def detail_or_def or_else_def partialize_def)


end
